theory Spec2Isabelle
  imports Complex_Main "HOL-Library.Option_ord" "HOL-Library.Multiset" "HOL-Library.Sublist"
begin

section \<open>Errors raised by the Python code\<close>

text \<open>
  The notebooks are Python. Every place where the modelled code raises is a branch of the
  model that returns \<open>Inl\<close> of one of these errors.
\<close>

datatype py_error = ValueError | IndexError | ModelError

section \<open>NumPy operations used by the notebooks\<close>

text \<open>
  A one-dimensional array is a list, a two-dimensional array a list of rows. Array
  entries are floating-point numbers in the source; the model idealises them as reals
  (no rounding, no NaN).

  \<open>py_slice xs a b\<close> is the Python slice \<open>xs[a:b]\<close>: negative bounds count from the end,
  and bounds beyond the array are clipped.
\<close>

definition py_slice :: "'a list \<Rightarrow> int \<Rightarrow> int \<Rightarrow> 'a list" where
  "py_slice xs a b =
     (let n = int (length xs);
          lo = (if a < 0 then max (a + n) 0 else min a n);
          hi = (if b < 0 then max (b + n) 0 else min b n)
      in take (nat (hi - lo)) (drop (nat lo) xs))"

text \<open>
  \<open>reshape_dim d n\<close> is the length of the long axis after \<open>a.reshape((d, 1))\<close> or
  \<open>a.reshape((1, d))\<close> of a one-dimensional array with \<open>n\<close> elements. NumPy infers the
  axis when \<open>d\<close> is negative (\<open>-1\<close> and every other negative number mark the dimension to
  infer; the other dimension is 1, so that the inferred one is \<open>n\<close>), and raises ValueError
  when \<open>d\<close> is not negative and differs from the number of elements.
\<close>

definition reshape_dim :: "int \<Rightarrow> nat \<Rightarrow> py_error + nat" where
  "reshape_dim d n =
     (if d < 0 then Inr n
      else if nat d = n then Inr n
      else Inl ValueError)"

text \<open>\<open>np.matmul\<close> of a column \<open>(m, 1)\<close> and a row \<open>(1, n)\<close>: the \<open>m \<times> n\<close> outer product.\<close>

definition matmul_col_row :: "real list \<Rightarrow> real list \<Rightarrow> real list list" where
  "matmul_col_row col row = map (\<lambda>a. map (\<lambda>b. a * b) row) col"

text \<open>
  \<open>np.triu(m, k)\<close> keeps the entries on and above the \<open>k\<close>-th diagonal (\<open>j \<ge> i + k\<close>)
  and writes zero elsewhere; \<open>np.tril(m, k)\<close> keeps the entries on and below it
  (\<open>j \<le> i + k\<close>).
\<close>

definition triu :: "real list list \<Rightarrow> int \<Rightarrow> real list list" where
  "triu m k =
     map (\<lambda>i. map (\<lambda>j. if int i + k \<le> int j then m ! i ! j else 0) [0..<length (m ! i)])
       [0..<length m]"

definition tril :: "real list list \<Rightarrow> int \<Rightarrow> real list list" where
  "tril m k =
     map (\<lambda>i. map (\<lambda>j. if int j \<le> int i + k then m ! i ! j else 0) [0..<length (m ! i)])
       [0..<length m]"

text \<open>
  \<open>argmax\<close> of a flat array: the index of the first occurrence of the maximum; an empty
  array raises ValueError. \<open>argmax_from best bi i xs\<close> scans \<open>xs\<close>, whose first element
  has index \<open>i\<close>, holding the best value so far and its index.
\<close>

fun argmax_from :: "'a::linorder \<Rightarrow> nat \<Rightarrow> nat \<Rightarrow> 'a list \<Rightarrow> nat" where
  "argmax_from best bi i [] = bi"
| "argmax_from best bi i (x # xs) =
     (if best < x then argmax_from x i (Suc i) xs else argmax_from best bi (Suc i) xs)"

definition argmax :: "'a::linorder list \<Rightarrow> py_error + nat" where
  "argmax xs = (case xs of [] \<Rightarrow> Inl ValueError | x # r \<Rightarrow> Inr (argmax_from x 0 1 r))"

section \<open>Entity extraction notebook: the best start-end window\<close>

text \<open>
  \<open>find_best_entity_window\<close> of the entity-extraction notebook
  (\<^verbatim>\<open>src/unnamed/part_000\<close>, lines 303-320): the outer product of the start scores and
  the end scores of the context tokens, with the candidates that end before they start
  and the candidates longer than 16 tokens reset to zero, and the position of the largest
  remaining entry, as (row, column) = (start, end).

  \<^verbatim>\<open>def find_best_entity_window(start_score, end_score,\<close>
  \<^verbatim>\<open>                            context_start_idx, context_end_idx):\<close>
  \<^verbatim>\<open>    context_len = context_end_idx - context_start_idx\<close>
  \<^verbatim>\<open>    score_mat = np.matmul(\<close>
  \<^verbatim>\<open>        start_score[context_start_idx:context_end_idx].reshape((context_len, 1)),\<close>
  \<^verbatim>\<open>        end_score[context_start_idx:context_end_idx].reshape((1, context_len)),\<close>
  \<^verbatim>\<open>    )\<close>
  \<^verbatim>\<open>    score_mat = np.triu(score_mat)\<close>
  \<^verbatim>\<open>    score_mat = np.tril(score_mat, 16)\<close>
  \<^verbatim>\<open>    max_s, max_e = divmod(score_mat.flatten().argmax(), score_mat.shape[1])\<close>
  \<^verbatim>\<open>    max_score = score_mat[max_s, max_e]\<close>
  \<^verbatim>\<open>    return max_score, max_s, max_e\<close>
\<close>

definition find_best_entity_window ::
  "real list \<Rightarrow> real list \<Rightarrow> int \<Rightarrow> int \<Rightarrow> py_error + (real \<times> nat \<times> nat)" where
  "find_best_entity_window start_score end_score context_start_idx context_end_idx =
     (let context_len = context_end_idx - context_start_idx;
          col = py_slice start_score context_start_idx context_end_idx;
          row = py_slice end_score context_start_idx context_end_idx
      in case reshape_dim context_len (length col) of
           Inl e \<Rightarrow> Inl e
         | Inr nrows \<Rightarrow>
          (case reshape_dim context_len (length row) of
             Inl e \<Rightarrow> Inl e
           | Inr ncols \<Rightarrow>
              (let score_mat = tril (triu (matmul_col_row col row) 0) 16
               in case argmax (concat score_mat) of
                    Inl e \<Rightarrow> Inl e
                  | Inr k \<Rightarrow>
                     (let max_s = k div ncols; max_e = k mod ncols
                      in Inr (score_mat ! max_s ! max_e, max_s, max_e)))))"

section \<open>Entity extraction notebook: running the analysis\<close>

text \<open>
  A Python string is the list of its characters, each given by its code point, so that
  \<open>length\<close> is Python's \<open>len\<close>. \<open>py\<close> turns a literal of the source into such a string.
\<close>

type_synonym py_str = "nat list"

definition py :: "string \<Rightarrow> py_str" where
  "py s = map of_char s"

text \<open>
  The input dictionary built by \<open>prepare_input\<close>; \<open>position_ids\<close> is present only for
  models that have an input of that name.
\<close>

record network_input =
  input_ids :: "int list"
  attention_mask :: "int list"
  token_type_ids :: "int list"
  position_ids :: "int list option"

text \<open>
  What the notebook takes from outside: the tokenizer \<open>tokens.text_to_tokens\<close> with the
  loaded vocabulary (token ids and the start and end offset of every token; it is taken
  to return for every text), \<open>str.lower\<close>, the compiled OpenVINO model (the outputs
  \<open>output_s\<close> and \<open>output_e\<close> of the only batch element, or an error raised by the
  runtime), the ids of the special tokens, and whether the model has a \<open>position_ids\<close>
  input.
\<close>

record env =
  text_to_tokens :: "py_str \<Rightarrow> int list \<times> (nat \<times> nat) list"
  lower :: "py_str \<Rightarrow> py_str"
  compiled_model :: "network_input \<Rightarrow> py_error + real list \<times> real list"
  cls_token :: int
  sep_token :: int
  has_position_ids :: bool

definition confidence_threshold :: real where
  "confidence_threshold = 4 / 10"

definition template :: "string list" where
  "template = [''building'', ''company'', ''persons'', ''city'',
               ''state'', ''height'', ''floor'', ''address'']"

definition prepare_input :: "env \<Rightarrow> int list \<Rightarrow> int list \<Rightarrow> network_input" where
  "prepare_input E entity_tokens context_tokens =
     (let ids = [cls_token E] @ entity_tokens @ [sep_token E] @ context_tokens @ [sep_token E]
      in \<lparr> input_ids = ids,
           attention_mask = replicate (length ids) 1,
           token_type_ids = replicate (length entity_tokens + 2) 0 @
                            replicate (length context_tokens + 1) 1,
           position_ids = (if has_position_ids E then Some (map int [0..<length ids]) else None) \<rparr>)"

definition get_score :: "real list \<Rightarrow> real list" where
  "get_score logits = (let out = map exp logits in map (\<lambda>x. x / sum_list out) out)"

text \<open>Indexing a list with a non-negative index; out of range raises IndexError.\<close>

definition py_index :: "'a list \<Rightarrow> nat \<Rightarrow> py_error + 'a" where
  "py_index xs i = (if i < length xs then Inr (xs ! i) else Inl IndexError)"

definition postprocess ::
  "real list \<Rightarrow> real list \<Rightarrow> int list \<Rightarrow> (nat \<times> nat) list \<Rightarrow> nat \<Rightarrow>
   py_error + (real \<times> nat \<times> nat)" where
  "postprocess output_start output_end entity_tokens context_tokens_start_end input_size =
     (let score_start = get_score output_start;
          score_end = get_score output_end;
          context_start_idx = int (length entity_tokens) + 2;
          context_end_idx = int input_size - 1
      in case find_best_entity_window score_start score_end context_start_idx context_end_idx of
           Inl e \<Rightarrow> Inl e
         | Inr (max_score, max_start, max_end) \<Rightarrow>
            (case py_index context_tokens_start_end max_start of
               Inl e \<Rightarrow> Inl e
             | Inr se_start \<Rightarrow>
                (case py_index context_tokens_start_end max_end of
                   Inl e \<Rightarrow> Inl e
                 | Inr se_end \<Rightarrow> Inr (max_score, fst se_start, snd se_end))))"

text \<open>
  What a run writes and does, in order: the lines it prints and the calls of the compiled
  model. \<open>PrintErrorEmpty\<close> is the line "Error: Empty context or outside paragraphs",
  \<open>PrintErrorTooLong\<close> the line "Error: The context is too long for this particular
  model. Try with context shorter than 380 words.", \<open>Inference\<close> the call
  \<open>compiled_model(network_input)\<close> in \<open>get_best_entity\<close>, the only call of the model in
  the notebook that \<open>run_analyze_entities\<close> reaches. The elapsed time in the JSON output
  is not modelled; an extraction is the entity text, its type and its score.
\<close>

datatype event =
    PrintContext py_str
  | PrintErrorEmpty
  | PrintErrorTooLong
  | Inference network_input
  | PrintJsonOutput "(py_str \<times> string \<times> real) list"

text \<open>
  \<open>get_best_entity\<close> returns the events it caused and either the error that escaped or
  the answer and its score. The compiled model is called once, after tokenization.
\<close>

definition get_best_entity :: "env \<Rightarrow> py_str \<Rightarrow> py_str \<Rightarrow> event list \<times> (py_error + py_str \<times> real)" where
  "get_best_entity E entity context =
     (let (context_tokens, context_tokens_end) = text_to_tokens E (lower E context);
          (entity_tokens, _) = text_to_tokens E (lower E entity);
          network_input = prepare_input E entity_tokens context_tokens;
          input_size = length context_tokens + length entity_tokens + 3
      in case compiled_model E network_input of
           Inl e \<Rightarrow> ([Inference network_input], Inl e)
         | Inr (output_s, output_e) \<Rightarrow>
            (case postprocess output_s output_e entity_tokens context_tokens_end input_size of
               Inl e \<Rightarrow> ([Inference network_input], Inl e)
             | Inr (score, s, e) \<Rightarrow>
                 ([Inference network_input], Inr (py_slice context (int s) (int e), score))))"

text \<open>
  The loop over the template in \<open>run_analyze_entities\<close>: \<open>extract\<close> is the list built so
  far, \<open>evs\<close> the events so far. An error in \<open>get_best_entity\<close> ends the run.
\<close>

fun extract_loop ::
  "env \<Rightarrow> py_str \<Rightarrow> string list \<Rightarrow> (py_str \<times> string \<times> real) list \<Rightarrow> event list \<Rightarrow>
   event list \<times> (py_error + (py_str \<times> string \<times> real) list)" where
  "extract_loop E context [] extract evs = (evs, Inr extract)"
| "extract_loop E context (field # rest) extract evs =
     (let entity_to_find = py field @ py ''?''
      in case get_best_entity E entity_to_find context of
           (es, Inl e) \<Rightarrow> (evs @ es, Inl e)
         | (es, Inr (entity, score)) \<Rightarrow>
             extract_loop E context rest
               (if confidence_threshold \<le> score then extract @ [(entity, field, score)]
                else extract)
               (evs @ es))"

text \<open>
  \<open>run_analyze_entities\<close> (\<^verbatim>\<open>src/unnamed/part_000\<close>, lines 400-426): the events of
  the run and the error that escaped, if any.

  \<^verbatim>\<open>def run_analyze_entities(context):\<close>
  \<^verbatim>\<open>    print(...)                       # the context\<close>
  \<^verbatim>\<open>    if len(context) == 0:\<close>
  \<^verbatim>\<open>        print("Error: Empty context or outside paragraphs")\<close>
  \<^verbatim>\<open>        return\<close>
  \<^verbatim>\<open>    if len(context) > 380:\<close>
  \<^verbatim>\<open>        print("Error: The context is too long ...")\<close>
  \<^verbatim>\<open>        return\<close>
  \<^verbatim>\<open>    start_time = time.perf_counter()\<close>
  \<^verbatim>\<open>    extract = []\<close>
  \<^verbatim>\<open>    for field in template:\<close>
  \<^verbatim>\<open>        entity_to_find = field + "?"\<close>
  \<^verbatim>\<open>        entity, score = get_best_entity(entity=entity_to_find,\<close>
  \<^verbatim>\<open>                                        context=context, vocab=vocab)\<close>
  \<^verbatim>\<open>        if score >= confidence_threshold:\<close>
  \<^verbatim>\<open>            extract.append({"Entity": entity, "Type": field, "Score": ...})\<close>
  \<^verbatim>\<open>    end_time = time.perf_counter()\<close>
  \<^verbatim>\<open>    res = {"Extraction": extract, "Time": ...}\<close>
  \<^verbatim>\<open>    print(...)                       # "JSON Output:" and json.dumps(res, ...)\<close>
\<close>

definition run_analyze_entities :: "env \<Rightarrow> py_str \<Rightarrow> event list \<times> py_error option" where
  "run_analyze_entities E context =
     (if length context = 0 then ([PrintContext context, PrintErrorEmpty], None)
      else if length context > 380 then ([PrintContext context, PrintErrorTooLong], None)
      else case extract_loop E context template [] [PrintContext context] of
             (evs, Inl e) \<Rightarrow> (evs, Some e)
           | (evs, Inr extract) \<Rightarrow> (evs @ [PrintJsonOutput extract], None))"

text \<open>
  A small environment to run the model on: a tokenizer that makes one token of any text, a
  compiled model that returns zero logits for every position, and the input that
  \<open>prepare_input\<close> builds from them.
\<close>

definition example_env :: env where
  "example_env = \<lparr> text_to_tokens = (\<lambda>s. ([7], [(0, length s)])),
            lower = (\<lambda>s. s),
            compiled_model = (\<lambda>ni. Inr (replicate (length (input_ids ni)) 0,
                                          replicate (length (input_ids ni)) 0)),
            cls_token = 101, sep_token = 102, has_position_ids = False \<rparr>"

definition example_input :: network_input where
  "example_input = \<lparr>input_ids = [101, 7, 102, 7, 102], attention_mask = [1, 1, 1, 1, 1],
          token_type_ids = [0, 0, 0, 1, 1], position_ids = None\<rparr>"

section \<open>Text prediction notebook: top-k filtering of the logits\<close>

text \<open>
  A logit is a float that may be minus infinity (\<open>process_logits\<close> and the filter below
  write \<open>-float("inf")\<close>): \<open>None\<close> is minus infinity, below every \<open>Some x\<close>.
\<close>

type_synonym logit = "real option"

abbreviation neg_inf :: logit where
  "neg_inf \<equiv> None"

text \<open>\<open>np.min\<close> of a flat array; a zero-size array raises ValueError.\<close>

definition np_min :: "'a::linorder list \<Rightarrow> py_error + 'a" where
  "np_min xs = (case xs of [] \<Rightarrow> Inl ValueError | x # r \<Rightarrow> Inr (fold min r x))"

text \<open>
  \<open>get_top_k_logits\<close>
  (\<^verbatim>\<open>src/notebooks/223-gpt2-text-prediction/223-gpt2-text-prediction.ipynb\<close>, lines
  274-288):

  \<^verbatim>\<open>def get_top_k_logits(scores, top_k):\<close>
  \<^verbatim>\<open>    filter_value = -float("inf")\<close>
  \<^verbatim>\<open>    top_k = min(max(top_k, 1), scores.shape[-1])\<close>
  \<^verbatim>\<open>    top_k_scores = -np.sort(-scores)[:, :top_k]\<close>
  \<^verbatim>\<open>    indices_to_remove = scores < np.min(top_k_scores)\<close>
  \<^verbatim>\<open>    filtred_scores = np.ma.array(scores, mask=indices_to_remove,\<close>
  \<^verbatim>\<open>                                 fill_value=filter_value).filled()\<close>
  \<^verbatim>\<open>    return filtred_scores\<close>

  \<open>scores\<close> is a two-dimensional array, given by its rows, and
  \<open>scores.shape[-1]\<close> is the length of a row. (An array without rows has no row to read
  the length from; \<open>np.min\<close> raises on it whatever its second dimension is.)
  \<open>-np.sort(-scores)\<close> sorts every row in descending order, \<open>[:, :top_k]\<close> keeps the
  first \<open>top_k\<close> entries of every row, \<open>np.min\<close> is taken over the whole of that array,
  and the masked array is filled with \<open>filter_value\<close> where \<open>scores\<close> is below the minimum.
\<close>

definition get_top_k_logits :: "logit list list \<Rightarrow> int \<Rightarrow> py_error + logit list list" where
  "get_top_k_logits scores top_k =
     (let filter_value = neg_inf;
          vocab = (case scores of [] \<Rightarrow> 0 | r # _ \<Rightarrow> int (length r));
          top_k = min (max top_k 1) vocab;
          top_k_scores = map (\<lambda>r. take (nat top_k) (rev (sort r))) scores
      in case np_min (concat top_k_scores) of
           Inl e \<Rightarrow> Inl e
         | Inr threshold \<Rightarrow>
             Inr (map (map (\<lambda>x. if x < threshold then filter_value else x)) scores))"

section \<open>The notebooks as scripts\<close>

text \<open>
  A notebook is a linear script: its code cells run from top to bottom. What the claims
  about the notebooks speak of is which tools and library functions a notebook calls, how
  it calls them, and in which order. A notebook is modelled by the list of these calls in
  the order in which a fresh run executes them, and by the names of the functions and
  classes that its code cells define.

  A call is recorded when it performs one of the following steps: it downloads a
  pretrained model (weights, with the tokenizer or the configuration that belongs to
  them), a dataset, or code (a repository or a script), exports a model to ONNX, converts a model to OpenVINO IR, quantizes a
  model (the call that calibrates, estimates the ranges and inserts the 8-bit operations),
  validates accuracy on a dataset, measures performance, applies non-maximum suppression,
  or runs inference asynchronously.

  A measurement of performance (\<open>Benchmark\<close>) is a run of \<open>benchmark_app\<close>, a call of a
  helper that prints throughput, or a reading of a timer (\<open>time.perf_counter\<close>,
  \<open>time.time\<close>) by the notebook's own code before inference or validation whose elapsed
  time, or a rate computed from it, is printed afterwards: the timing loops that print
  frames or sentences per second, the latency of a single inference, the elapsed time of
  one run of a task, and the batch-time meter of the validation functions. The entry is
  the first reading of the timer. The timers around quantization (105, lines 485 and 1277)
  and inside the training loop (302, line 274) time the quantization and the training of a
  model, not its inference, and are not listed.

  A call is made either as a shell command (a line that starts with \<open>!\<close> in a cell) or in
  the Python process. Its line is the line of the source file where the call is written; a
  call written inside a function of the notebook is listed where the function is run, once
  for each run.
\<close>

datatype step =
    DownloadModel | DownloadData | DownloadCode | ExportOnnx | ConvertIR | Quantize
  | Validate | Benchmark | Nms | AsyncInfer

datatype how = Shell | Python

text \<open>
  Where the callee comes from: a library or tool named by the import or by the command,
  \<open>NotebookUtils\<close> for the helper module \<open>notebook_utils\<close> of the repository (imported
  from \<open>../utils\<close>; its source is not part of the notebooks), \<open>OwnCode\<close> for a function
  that the notebook itself defines.
\<close>

datatype origin =
    OpenVINO | POT | NNCF | OpenModelZoo | YOLOv7 | PyTorch | Paddle | TensorFlow
  | Transformers | PyStd | Git | NotebookUtils | OwnCode

datatype call = Call (line: nat) (step: step) (how: how) (callee: string) (origin: origin)

datatype notebook =
  Notebook (name: string) (calls: "call list") (defined: "string list")

text \<open>
  \<^verbatim>\<open>src/unnamed/part_000\<close>: Document Entity Extraction with
  OpenVINO: downloads a quantized BERT model that is already in IR format and runs it.
  \<open>run_analyze_entities\<close>, run in lines 450, 475 and 497, reads the timer in line 413
  and prints the processing time with the result.
\<close>

definition nb_entity_extraction :: notebook where
  "nb_entity_extraction = Notebook ''part_000''
     [Call 95 DownloadModel Shell ''omz_downloader'' OpenModelZoo,
      Call 413 Benchmark Python ''time.perf_counter'' PyStd,
      Call 413 Benchmark Python ''time.perf_counter'' PyStd,
      Call 413 Benchmark Python ''time.perf_counter'' PyStd]
     [''prepare_input'', ''postprocess'', ''find_best_entity_window'', ''get_best_entity'',
      ''run_analyze_entities'']"

text \<open>
  \<^verbatim>\<open>src/unnamed/part_001\<close>: Quantize a Segmentation Model and Show
  Live Inference. The call of \<open>show_live_inference\<close> in line 806 is listed twice: it runs
  the inference asynchronously and, as the notebook says in line 747, prints the total time
  and the throughput in frames per second.
\<close>

definition nb_ct_segmentation :: notebook where
  "nb_ct_segmentation = Notebook ''part_001''
     [Call 199 DownloadModel Python ''download_file'' NotebookUtils,
      Call 229 ExportOnnx Python ''torch.onnx.export'' PyTorch,
      Call 230 ConvertIR Shell ''mo'' OpenVINO,
      Call 253 DownloadData Python ''download_file'' NotebookUtils,
      Call 431 Validate Python ''compute_f1'' OwnCode,
      Call 497 Quantize Python ''create_compressed_model'' NNCF,
      Call 538 ExportOnnx Python ''compression_ctrl.export_model'' NNCF,
      Call 541 ConvertIR Shell ''mo'' OpenVINO,
      Call 590 Validate Python ''compute_f1'' OwnCode,
      Call 641 Benchmark Shell ''benchmark_app'' OpenVINO,
      Call 656 Benchmark Shell ''benchmark_app'' OpenVINO,
      Call 806 AsyncInfer Python ''show_live_inference'' NotebookUtils,
      Call 806 Benchmark Python ''show_live_inference'' NotebookUtils]
     [''rotate_and_flip'', ''KitsDataset'', ''compute_f1'', ''sigmoid'']"

text \<open>
  \<^verbatim>\<open>src/unnamed/part_002\<close>: Photos to Anime with PaddleGAN and
  OpenVINO; the predictor of line 153 downloads the weights, and the two loops of lines
  548-556 and 584-592 print seconds per image and FPS.
\<close>

definition nb_paddlegan :: notebook where
  "nb_paddlegan = Notebook ''part_002''
     [Call 153 DownloadModel Python ''AnimeGANPredictor'' Paddle,
      Call 288 ExportOnnx Python ''paddle.onnx.export'' Paddle,
      Call 364 ConvertIR Shell ''mo'' OpenVINO,
      Call 548 Benchmark Python ''time.perf_counter'' PyStd,
      Call 584 Benchmark Python ''time.perf_counter'' PyStd]
     [''resize_to_max_width'', ''calc_avg_brightness'', ''adjust_brightness'']"

text \<open>
  \<^verbatim>\<open>src/notebooks/105-language-quantize-bert/105-language-quantize-bert.ipynb,
  lines 1-760\<close>: the BERT quantization notebook; the export of line 152 runs inside
  export_model_to_onnx, called in line 172; line 226 downloads the script
  \<open>download_glue_data.py\<close>, whose \<open>format_mrpc\<close> fetches the MRPC dataset in line 241; the
  loops of lines 653-681 print seconds per sentence and sentences per second.
\<close>

definition nb_bert :: notebook where
  "nb_bert = Notebook ''105-language-quantize-bert''
     [Call 112 DownloadModel Python ''download_file'' NotebookUtils,
      Call 152 ExportOnnx Python ''torch.onnx.export'' PyTorch,
      Call 202 ConvertIR Shell ''mo'' OpenVINO,
      Call 226 DownloadCode Python ''download_file'' NotebookUtils,
      Call 241 DownloadData Python ''format_mrpc'' Transformers,
      Call 464 Validate Python ''pipeline.evaluate'' POT,
      Call 486 Quantize Python ''pipeline.run'' POT,
      Call 510 Validate Python ''pipeline.evaluate'' POT,
      Call 653 Benchmark Python ''time.perf_counter'' PyStd,
      Call 663 Benchmark Python ''time.perf_counter'' PyStd,
      Call 673 Benchmark Python ''time.perf_counter'' PyStd,
      Call 711 Benchmark Shell ''benchmark_app'' OpenVINO,
      Call 730 Benchmark Shell ''benchmark_app'' OpenVINO]
     [''export_model_to_onnx'', ''MRPCDataLoader'', ''Accuracy'']"

text \<open>
  \<^verbatim>\<open>src/notebooks/105-language-quantize-bert/105-language-quantize-bert.ipynb,
  lines 761-1469\<close>: a second notebook in the same file, Quantize Speech Recognition
  Models with the Post-Training Optimization Tool; lines 1256-1259 time the evaluation of
  the original model and print the seconds it took.
\<close>

definition nb_speech :: notebook where
  "nb_speech = Notebook ''105-language-quantize-bert:761''
     [Call 865 DownloadModel Python ''download_file'' NotebookUtils,
      Call 866 DownloadModel Python ''download_file'' NotebookUtils,
      Call 902 ExportOnnx Python ''torch.onnx.export'' PyTorch,
      Call 949 ConvertIR Shell ''mo'' OpenVINO,
      Call 973 DownloadData Python ''download_file'' NotebookUtils,
      Call 1256 Benchmark Python ''time.perf_counter'' PyStd,
      Call 1257 Validate Python ''pipeline.evaluate'' POT,
      Call 1278 Quantize Python ''pipeline.run'' POT,
      Call 1301 Validate Python ''pipeline.evaluate'' POT,
      Call 1423 Benchmark Shell ''benchmark_app'' OpenVINO,
      Call 1439 Benchmark Shell ''benchmark_app'' OpenVINO]
     [''export_model_to_onnx'', ''LibriSpeechDataLoader'', ''MetricWER'']"

text \<open>
  \<^verbatim>\<open>src/notebooks/112-pytorch-post-training-quantization-nncf/112-pytorch-post-training-quantization-nncf.ipynb\<close>:
  post-training quantization with NNCF; the download of line 201 runs inside
  download_tiny_imagenet_200, called in line 231; \<open>validate\<close>, run in lines 481 and 591,
  reads the timer in line 332 and prints the time per batch.
\<close>

definition nb_ptq_nncf :: notebook where
  "nb_ptq_nncf = Notebook ''112-pytorch-post-training-quantization-nncf''
     [Call 176 DownloadModel Python ''download_file'' NotebookUtils,
      Call 201 DownloadData Python ''download_file'' NotebookUtils,
      Call 481 Validate Python ''validate'' OwnCode,
      Call 332 Benchmark Python ''time.time'' PyStd,
      Call 499 ExportOnnx Python ''torch.onnx.export'' PyTorch,
      Call 575 Quantize Python ''create_compressed_model'' NNCF,
      Call 591 Validate Python ''validate'' OwnCode,
      Call 332 Benchmark Python ''time.time'' PyStd,
      Call 610 ExportOnnx Python ''compression_ctrl.export_model'' NNCF,
      Call 645 ConvertIR Shell ''mo'' OpenVINO,
      Call 656 ConvertIR Shell ''mo'' OpenVINO,
      Call 689 Benchmark Shell ''benchmark_app'' OpenVINO,
      Call 693 Benchmark Shell ''benchmark_app'' OpenVINO]
     [''download_tiny_imagenet_200'', ''create_validation_dir'', ''AverageMeter'',
      ''ProgressMeter'', ''accuracy'', ''validate'', ''create_model'',
      ''create_dataloaders'', ''parse_benchmark_output'']"

text \<open>
  \<^verbatim>\<open>src/notebooks/114-quantization-simplified-mode/114-quantization-simplified-mode.ipynb\<close>:
  quantization with POT in simplified mode; line 289 runs inside infer_on_images, called
  in line 308.
\<close>

definition nb_pot_simplified :: notebook where
  "nb_pot_simplified = Notebook ''114-quantization-simplified-mode''
     [Call 73 DownloadData Python ''CIFAR10'' PyTorch,
      Call 110 DownloadModel Python ''torch.hub.load'' PyTorch,
      Call 117 ExportOnnx Python ''torch.onnx.export'' PyTorch,
      Call 133 ConvertIR Shell ''mo'' OpenVINO,
      Call 152 Quantize Shell ''pot'' POT,
      Call 184 Benchmark Shell ''benchmark_app'' OpenVINO,
      Call 194 Benchmark Shell ''benchmark_app'' OpenVINO,
      Call 289 AsyncInfer Python ''infer_request.start_async'' OpenVINO]
     [''plot_pictures'', ''infer_on_images'']"

text \<open>
  \<^verbatim>\<open>src/notebooks/212-onnx-style-transfer/212-onnx-style-transfer.ipynb\<close>:
  style transfer on downloaded ONNX models, read by OpenVINO Runtime as they are.
\<close>

definition nb_style_transfer :: notebook where
  "nb_style_transfer = Notebook ''212-onnx-style-transfer''
     [Call 98 DownloadModel Python ''download_file'' NotebookUtils]
     [''Style'', ''resize_to_max'']"

text \<open>
  \<^verbatim>\<open>src/notebooks/214-vision-paddle-classification/214-vision-paddle-classification.ipynb\<close>:
  PaddlePaddle classification, the model read by OpenVINO Runtime as it is; the inference
  of line 237 is timed and its latency printed by the callback (lines 116-117), and the
  loops of lines 287-295 and 322-330 print throughput and average latency.
\<close>

definition nb_paddle_classification :: notebook where
  "nb_paddle_classification = Notebook ''214-vision-paddle-classification''
     [Call 73 DownloadModel Python ''urllib.request.urlretrieve'' PyStd,
      Call 233 AsyncInfer Python ''AsyncInferQueue'' OpenVINO,
      Call 237 Benchmark Python ''time.time'' PyStd,
      Call 283 AsyncInfer Python ''AsyncInferQueue'' OpenVINO,
      Call 287 Benchmark Python ''time.time'' PyStd,
      Call 320 AsyncInfer Python ''AsyncInferQueue'' OpenVINO,
      Call 322 Benchmark Python ''time.time'' PyStd,
      Call 354 Benchmark Shell ''benchmark_app'' OpenVINO,
      Call 365 Benchmark Shell ''benchmark_app'' OpenVINO]
     [''callback'']"

text \<open>
  \<^verbatim>\<open>src/notebooks/223-gpt2-text-prediction/223-gpt2-text-prediction.ipynb\<close>:
  GPT-2 text prediction; lines 45 and 46 download the pretrained tokenizer and model,
  lines 366-373 time the generation and print how long it took.
\<close>

definition nb_gpt2 :: notebook where
  "nb_gpt2 = Notebook ''223-gpt2-text-prediction''
     [Call 45 DownloadModel Python ''GPT2Tokenizer.from_pretrained'' Transformers,
      Call 46 DownloadModel Python ''GPT2LMHeadModel.from_pretrained'' Transformers,
      Call 89 ExportOnnx Python ''transformers.onnx.export'' Transformers,
      Call 92 ConvertIR Python ''mo.convert_model'' OpenVINO,
      Call 366 Benchmark Python ''time.perf_counter'' PyStd]
     [''tokenize'', ''softmax'', ''process_logits'', ''get_top_k_logits'',
      ''generate_sequence'']"

text \<open>
  \<^verbatim>\<open>src/notebooks/226-yolov7-optimization/226-yolov7-optimization.ipynb\<close>:
  YOLOv7 conversion and quantization; non_max_suppression of line 363 runs inside detect
  (called in lines 410 and 743), that of line 572 inside test (called in lines 648 and
  761).
\<close>

definition nb_yolov7 :: notebook where
  "nb_yolov7 = Notebook ''226-yolov7-optimization''
     [Call 91 DownloadCode Shell ''git clone'' Git,
      Call 108 DownloadModel Python ''download_file'' NotebookUtils,
      Call 190 ExportOnnx Shell ''python export.py'' YOLOv7,
      Call 212 ConvertIR Python ''mo.convert_model'' OpenVINO,
      Call 363 Nms Python ''non_max_suppression'' YOLOv7,
      Call 448 DownloadData Python ''download_file'' NotebookUtils,
      Call 449 DownloadData Python ''download_file'' NotebookUtils,
      Call 648 Validate Python ''test'' OwnCode,
      Call 572 Nms Python ''non_max_suppression'' YOLOv7,
      Call 724 Quantize Python ''nncf.quantize'' NNCF,
      Call 363 Nms Python ''non_max_suppression'' YOLOv7,
      Call 761 Validate Python ''test'' OwnCode,
      Call 572 Nms Python ''non_max_suppression'' YOLOv7,
      Call 802 Benchmark Shell ''benchmark_app'' OpenVINO,
      Call 812 Benchmark Shell ''benchmark_app'' OpenVINO]
     [''preprocess_image'', ''prepare_input_tensor'', ''detect'', ''draw_boxes'', ''test'',
      ''transform_fn'']"

text \<open>
  \<^verbatim>\<open>src/notebooks/302-pytorch-quantization-aware-training/302-pytorch-quantization-aware-training.ipynb\<close>:
  quantization-aware training with PyTorch and NNCF; the download of line 198 runs inside
  download_tiny_imagenet_200, called in line 223; \<open>validate\<close>, run in lines 695 and 725,
  reads the timer in line 331 and prints the time per batch.
\<close>

definition nb_qat_pytorch :: notebook where
  "nb_qat_pytorch = Notebook ''302-pytorch-quantization-aware-training''
     [Call 160 DownloadModel Python ''download_file'' NotebookUtils,
      Call 198 DownloadData Python ''download_file'' NotebookUtils,
      Call 585 ExportOnnx Python ''torch.onnx.export'' PyTorch,
      Call 675 Quantize Python ''create_compressed_model'' NNCF,
      Call 695 Validate Python ''validate'' OwnCode,
      Call 331 Benchmark Python ''time.time'' PyStd,
      Call 725 Validate Python ''validate'' OwnCode,
      Call 331 Benchmark Python ''time.time'' PyStd,
      Call 752 ExportOnnx Python ''compression_ctrl.export_model'' NNCF,
      Call 780 ConvertIR Shell ''mo'' OpenVINO,
      Call 794 ConvertIR Shell ''mo'' OpenVINO,
      Call 824 Benchmark Shell ''benchmark_app'' OpenVINO,
      Call 828 Benchmark Shell ''benchmark_app'' OpenVINO]
     [''download_tiny_imagenet_200'', ''prepare_tiny_imagenet_200'', ''train'',
      ''validate'', ''AverageMeter'', ''ProgressMeter'', ''accuracy'',
      ''parse_benchmark_output'']"

text \<open>
  \<^verbatim>\<open>src/notebooks/305-tensorflow-quantization-aware-training/305-tensorflow-quantization-aware-training.ipynb\<close>:
  quantization-aware training with TensorFlow and NNCF; the models are exported as a saved
  model and a frozen graph, never to ONNX.
\<close>

definition nb_qat_tensorflow :: notebook where
  "nb_qat_tensorflow = Notebook ''305-tensorflow-quantization-aware-training''
     [Call 92 DownloadModel Python ''tf.keras.utils.get_file'' TensorFlow,
      Call 119 DownloadData Python ''tfds.load'' TensorFlow,
      Call 268 Validate Python ''model.evaluate'' TensorFlow,
      Call 362 Quantize Python ''create_compressed_model'' NNCF,
      Call 386 Validate Python ''model.evaluate'' TensorFlow,
      Call 419 Validate Python ''model.evaluate'' TensorFlow,
      Call 465 ConvertIR Shell ''mo'' OpenVINO,
      Call 475 ConvertIR Shell ''mo'' OpenVINO,
      Call 505 Benchmark Shell ''benchmark_app'' OpenVINO,
      Call 509 Benchmark Shell ''benchmark_app'' OpenVINO]
     [''preprocessing'', ''residual_conv_block'', ''ResNet18'', ''parse_benchmark_output'']"

text \<open>The notebooks of the repository, in the order of the listing above.\<close>

definition notebooks :: "notebook list" where
  "notebooks = [nb_entity_extraction, nb_ct_segmentation, nb_paddlegan, nb_bert,
     nb_speech, nb_ptq_nncf, nb_pot_simplified, nb_style_transfer,
     nb_paddle_classification, nb_gpt2, nb_yolov7, nb_qat_pytorch,
     nb_qat_tensorflow]"

subsection \<open>The pipeline of the specification\<close>

definition is_download :: "call \<Rightarrow> bool" where
  "is_download c = (step c \<in> {DownloadModel, DownloadData, DownloadCode})"

definition is_benchmark_app :: "call \<Rightarrow> bool" where
  "is_benchmark_app c = (step c = Benchmark \<and> callee c = ''benchmark_app'')"

text \<open>
  The specification gives every notebook six steps in this order: download a pretrained
  model and dataset, export to ONNX, convert to OpenVINO IR, optionally quantize, validate
  accuracy, benchmark with \<open>benchmark_app\<close>. \<open>stage c\<close> is the position in this list of the
  step that the call \<open>c\<close> performs; the other calls (a download of code, a measurement
  without \<open>benchmark_app\<close>, non-maximum suppression, asynchronous inference) perform
  none of the six.
\<close>

definition stage :: "call \<Rightarrow> nat option" where
  "stage c =
     (if step c = DownloadModel \<or> step c = DownloadData then Some 0
      else if step c = ExportOnnx then Some 1
      else if step c = ConvertIR then Some 2
      else if step c = Quantize then Some 3
      else if step c = Validate then Some 4
      else if is_benchmark_app c then Some 5
      else None)"

text \<open>
  A notebook has every step that is not optional: it downloads a model, downloads a
  dataset, exports to ONNX, converts to IR, validates accuracy and runs \<open>benchmark_app\<close>.
\<close>

definition has_all_steps :: "notebook \<Rightarrow> bool" where
  "has_all_steps nb =
     (list_ex (\<lambda>c. step c = DownloadModel) (calls nb) \<and>
      list_ex (\<lambda>c. step c = DownloadData) (calls nb) \<and>
      list_ex (\<lambda>c. step c = ExportOnnx) (calls nb) \<and>
      list_ex (\<lambda>c. step c = ConvertIR) (calls nb) \<and>
      list_ex (\<lambda>c. step c = Validate) (calls nb) \<and>
      list_ex is_benchmark_app (calls nb))"

text \<open>
  The steps of a notebook are in the stated order when it never goes back: no call performs
  a step that stands earlier in the list than the step of a call before it. A step may be
  repeated (two downloads, two runs of \<open>benchmark_app\<close>).
\<close>

definition in_stated_order :: "notebook \<Rightarrow> bool" where
  "in_stated_order nb = sorted (List.map_filter stage (calls nb))"

text \<open>What the specification says of every notebook.\<close>

definition performs_pipeline :: "notebook \<Rightarrow> bool" where
  "performs_pipeline nb = (has_all_steps nb \<and> in_stated_order nb)"

text \<open>
  \<open>occurs_in_order ps cs\<close>: the calls \<open>cs\<close> contain, in this order and possibly with
  other calls in between, a call for each of the predicates \<open>ps\<close>.
\<close>

fun occurs_in_order :: "(call \<Rightarrow> bool) list \<Rightarrow> call list \<Rightarrow> bool" where
  "occurs_in_order [] cs = True"
| "occurs_in_order (p # ps) [] = False"
| "occurs_in_order (p # ps) (c # cs) =
     (if p c then occurs_in_order ps cs else occurs_in_order (p # ps) cs)"

text \<open>
  A weaker reading of the order: among the calls of the notebook, with any other calls in
  between, there are a download of the model, an export to ONNX, a conversion to IR, a
  quantization, an accuracy validation and a run of \<open>benchmark_app\<close>, one after the other.
\<close>

definition model_pipeline :: "(call \<Rightarrow> bool) list" where
  "model_pipeline =
     [\<lambda>c. step c = DownloadModel, \<lambda>c. step c = ExportOnnx, \<lambda>c. step c = ConvertIR,
      \<lambda>c. step c = Quantize, \<lambda>c. step c = Validate, is_benchmark_app]"

definition contains_model_pipeline :: "notebook \<Rightarrow> bool" where
  "contains_model_pipeline nb = occurs_in_order model_pipeline (calls nb)"

text \<open>A dataset is downloaded after a model has been converted to IR.\<close>

definition dataset_after_conversion :: "notebook \<Rightarrow> bool" where
  "dataset_after_conversion nb =
     occurs_in_order [\<lambda>c. step c = ConvertIR, \<lambda>c. step c = DownloadData] (calls nb)"

definition starts_with_download :: "notebook \<Rightarrow> bool" where
  "starts_with_download nb = (case calls nb of [] \<Rightarrow> False | c # _ \<Rightarrow> is_download c)"

text \<open>No conversion to IR comes before the first export to ONNX, if there is an export.\<close>

definition export_before_conversion :: "notebook \<Rightarrow> bool" where
  "export_before_conversion nb =
     (list_ex (\<lambda>c. step c = ExportOnnx) (calls nb) \<longrightarrow>
      list_all (\<lambda>c. step c \<noteq> ConvertIR) (takeWhile (\<lambda>c. step c \<noteq> ExportOnnx) (calls nb)))"

text \<open>From the first run of \<open>benchmark_app\<close> on, nothing is exported, converted or quantized.\<close>

definition benchmark_app_after_preparation :: "notebook \<Rightarrow> bool" where
  "benchmark_app_after_preparation nb =
     list_all (\<lambda>c. step c \<notin> {ExportOnnx, ConvertIR, Quantize})
       (dropWhile (\<lambda>c. \<not> is_benchmark_app c) (calls nb))"

subsection \<open>Who implements quantization, suppression and conversion\<close>

text \<open>
  The libraries that the specification names as the collaborators to which quantization
  (calibration and range estimation), non-maximum suppression and IR conversion are
  delegated, with the YOLOv7 utilities that the claim counts among them.
\<close>

definition external_library :: "origin \<Rightarrow> bool" where
  "external_library l = (l \<in> {NNCF, POT, OpenVINO, YOLOv7})"

definition delegated :: "notebook \<Rightarrow> bool" where
  "delegated nb =
     list_all (\<lambda>c. external_library (origin c) \<and> callee c \<notin> set (defined nb))
       (filter (\<lambda>c. step c \<in> {Quantize, Nms, ConvertIR}) (calls nb))"

subsection \<open>How performance is measured and how the tools are driven\<close>

text \<open>
  What the specification says of every notebook: it measures performance by running
  \<open>benchmark_app\<close> as a shell command, and every measurement that it makes is such a run.
\<close>

definition benchmarks_only_with_benchmark_app :: "notebook \<Rightarrow> bool" where
  "benchmarks_only_with_benchmark_app nb =
     (list_ex is_benchmark_app (calls nb) \<and>
      list_all (\<lambda>c. is_benchmark_app c \<and> how c = Shell)
        (filter (\<lambda>c. step c = Benchmark) (calls nb)))"

text \<open>
  A measurement by anything but \<open>benchmark_app\<close>: by a timer that the notebook's own code
  reads, or through the helper \<open>show_live_inference\<close>.
\<close>

definition other_measurement :: "call \<Rightarrow> bool" where
  "other_measurement c = (step c = Benchmark \<and> \<not> is_benchmark_app c)"

definition own_timer :: "call \<Rightarrow> bool" where
  "own_timer c =
     (step c = Benchmark \<and> how c = Python \<and>
      callee c \<in> {''time.perf_counter'', ''time.time''})"

definition helper_measurement :: "call \<Rightarrow> bool" where
  "helper_measurement c =
     (step c = Benchmark \<and> how c = Python \<and> callee c = ''show_live_inference'')"

definition uses_benchmark_app :: "notebook \<Rightarrow> bool" where
  "uses_benchmark_app nb = list_ex is_benchmark_app (calls nb)"

definition measures_otherwise :: "notebook \<Rightarrow> bool" where
  "measures_otherwise nb = list_ex other_measurement (calls nb)"

definition benchmark_app_by_shell :: "notebook \<Rightarrow> bool" where
  "benchmark_app_by_shell nb = list_all (\<lambda>c. how c = Shell) (filter is_benchmark_app (calls nb))"




section \<open>Facts about the NumPy operations\<close>

lemma argmax_from_spec:
  assumes "bi < length ps" "ps ! bi = best" "\<forall>j<length ps. ps ! j \<le> best"
    "\<forall>j<bi. ps ! j < best" "i = length ps"
  shows "argmax_from best bi i xs < length (ps @ xs) \<and>
         (\<forall>j<length (ps @ xs). (ps @ xs) ! j \<le> (ps @ xs) ! argmax_from best bi i xs) \<and>
         (\<forall>j<argmax_from best bi i xs. (ps @ xs) ! j < (ps @ xs) ! argmax_from best bi i xs)"
  using assms
proof (induction xs arbitrary: ps best bi i)
  case Nil
  then show ?case by simp
next
  case (Cons x xs)
  show ?case
  proof (cases "best < x")
    case True
    have "argmax_from x i (Suc i) xs < length ((ps @ [x]) @ xs) \<and>
         (\<forall>j<length ((ps @ [x]) @ xs). ((ps @ [x]) @ xs) ! j \<le> ((ps @ [x]) @ xs) ! argmax_from x i (Suc i) xs) \<and>
         (\<forall>j<argmax_from x i (Suc i) xs. ((ps @ [x]) @ xs) ! j < ((ps @ [x]) @ xs) ! argmax_from x i (Suc i) xs)"
    proof (rule Cons.IH)
      show "i < length (ps @ [x])" using Cons.prems by simp
      show "(ps @ [x]) ! i = x" using Cons.prems by simp
      show "\<forall>j<length (ps @ [x]). (ps @ [x]) ! j \<le> x"
        using Cons.prems True by (auto simp: nth_append less_Suc_eq intro: less_imp_le order.trans)
      show "\<forall>j<i. (ps @ [x]) ! j < x"
        using Cons.prems True by (auto simp: nth_append)
      show "Suc i = length (ps @ [x])" using Cons.prems by simp
    qed
    then show ?thesis using True by simp
  next
    case False
    have "argmax_from best bi (Suc i) xs < length ((ps @ [x]) @ xs) \<and>
         (\<forall>j<length ((ps @ [x]) @ xs). ((ps @ [x]) @ xs) ! j \<le> ((ps @ [x]) @ xs) ! argmax_from best bi (Suc i) xs) \<and>
         (\<forall>j<argmax_from best bi (Suc i) xs. ((ps @ [x]) @ xs) ! j < ((ps @ [x]) @ xs) ! argmax_from best bi (Suc i) xs)"
    proof (rule Cons.IH)
      show "bi < length (ps @ [x])" using Cons.prems by simp
      show "(ps @ [x]) ! bi = best" using Cons.prems by (simp add: nth_append)
      show "\<forall>j<length (ps @ [x]). (ps @ [x]) ! j \<le> best"
        using Cons.prems False by (auto simp: nth_append less_Suc_eq)
      show "\<forall>j<bi. (ps @ [x]) ! j < best"
        using Cons.prems by (auto simp: nth_append)
      show "Suc i = length (ps @ [x])" using Cons.prems by simp
    qed
    then show ?thesis using False by simp
  qed
qed

lemma argmax_Inr:
  assumes "argmax xs = Inr k"
  shows "k < length xs \<and> (\<forall>j<length xs. xs ! j \<le> xs ! k) \<and> (\<forall>j<k. xs ! j < xs ! k)"
proof (cases xs)
  case Nil
  with assms show ?thesis by (simp add: argmax_def)
next
  case (Cons x r)
  then have k: "k = argmax_from x 0 1 r" using assms by (simp add: argmax_def)
  have "argmax_from x 0 1 r < length ([x] @ r) \<and>
        (\<forall>j<length ([x] @ r). ([x] @ r) ! j \<le> ([x] @ r) ! argmax_from x 0 1 r) \<and>
        (\<forall>j<argmax_from x 0 1 r. ([x] @ r) ! j < ([x] @ r) ! argmax_from x 0 1 r)"
    by (rule argmax_from_spec) simp_all
  then show ?thesis using k Cons by simp
qed

lemma argmax_nonempty: "xs \<noteq> [] \<Longrightarrow> \<exists>k. argmax xs = Inr k"
  by (cases xs) (simp_all add: argmax_def)

lemma argmax_empty: "argmax [] = Inl ValueError"
  by (simp add: argmax_def)

lemma concat_nth_rect:
  assumes "\<forall>r\<in>set m. length r = n" "k < length m * n"
  shows "concat m ! k = m ! (k div n) ! (k mod n)"
  using assms
proof (induction m arbitrary: k)
  case Nil
  then show ?case by simp
next
  case (Cons r m)
  have n: "0 < n" using Cons.prems by (cases n) auto
  show ?case
  proof (cases "k < n")
    case True
    then show ?thesis using Cons.prems by (simp add: nth_append)
  next
    case False
    then have kn: "n \<le> k" by simp
    have "concat (r # m) ! k = concat m ! (k - n)"
      using Cons.prems False by (simp add: nth_append)
    also have "\<dots> = m ! ((k - n) div n) ! ((k - n) mod n)"
      using Cons.prems kn by (intro Cons.IH) auto
    finally have e: "concat (r # m) ! k = m ! ((k - n) div n) ! ((k - n) mod n)" .
    have d: "k div n = Suc ((k - n) div n)" using kn n by (simp add: le_div_geq)
    have mo: "k mod n = (k - n) mod n" using kn by (simp add: le_mod_geq)
    show ?thesis using e d mo by simp
  qed
qed

lemma length_concat_rect:
  "\<forall>r\<in>set m. length r = n \<Longrightarrow> length (concat m) = length m * n"
  by (induction m) auto

lemma length_band: "length (tril (triu (matmul_col_row col row) 0) 16) = length col"
  by (simp add: tril_def triu_def matmul_col_row_def)

lemma length_band_row:
  "r \<in> set (tril (triu (matmul_col_row col row) 0) 16) \<Longrightarrow> length r = length row"
  by (auto simp: tril_def triu_def matmul_col_row_def)

lemma band_nth:
  assumes "i < length col" "j < length row"
  shows "tril (triu (matmul_col_row col row) 0) 16 ! i ! j =
         (if i \<le> j \<and> j \<le> i + 16 then col ! i * row ! j else 0)"
  using assms by (auto simp: tril_def triu_def matmul_col_row_def)

lemma band_argmax:
  assumes nn: "\<forall>x\<in>set col. 0 \<le> x" "\<forall>x\<in>set row. 0 \<le> x"
    and am: "argmax (concat (tril (triu (matmul_col_row col row) 0) 16)) = Inr k"
  shows "k < length col * length row \<and> k div length row \<le> k mod length row \<and>
         k mod length row \<le> k div length row + 16"
proof -
  let ?M = "tril (triu (matmul_col_row col row) 0) 16"
  let ?n = "length row"
  have rect: "\<forall>r\<in>set ?M. length r = ?n" using length_band_row by blast
  have len: "length (concat ?M) = length col * ?n"
    using length_concat_rect [OF rect] by (simp add: length_band)
  from argmax_Inr [OF am]
  have k: "k < length col * ?n"
    and mx: "\<forall>j<length col * ?n. concat ?M ! j \<le> concat ?M ! k"
    and fst: "\<forall>j<k. concat ?M ! j < concat ?M ! k"
    using len by auto
  have n: "0 < ?n" using k by (cases "?n") auto
  have i: "k div ?n < length col" using k n by (simp add: less_mult_imp_div_less)
  have j: "k mod ?n < ?n" using n by simp
  have val: "concat ?M ! k = (if k div ?n \<le> k mod ?n \<and> k mod ?n \<le> k div ?n + 16
               then col ! (k div ?n) * row ! (k mod ?n) else 0)"
    using concat_nth_rect [OF rect, of k] k band_nth [OF i j] by (simp add: length_band)
  have zero: "0 < length col \<and> 0 < ?n" using i n by (cases col) auto
  have v0: "concat ?M ! 0 = col ! 0 * row ! 0"
  proof -
    have c: "0 < length col" using zero by simp
    have "concat ?M ! 0 = ?M ! 0 ! 0"
      using concat_nth_rect [OF rect, of 0] zero by (simp add: length_band)
    then show ?thesis using band_nth [OF c n] by simp
  qed
  have nn0: "0 \<le> concat ?M ! 0"
  proof -
    have "col ! 0 \<in> set col" "row ! 0 \<in> set row" using zero by simp_all
    then show ?thesis using nn v0 by simp
  qed
  show ?thesis
  proof (cases "k div ?n \<le> k mod ?n \<and> k mod ?n \<le> k div ?n + 16")
    case True
    then show ?thesis using k by simp
  next
    case False
    then have z: "concat ?M ! k = 0" using val by (simp only: if_False)
    have "k = 0"
    proof (rule ccontr)
      assume "k \<noteq> 0"
      then have "concat ?M ! 0 < concat ?M ! k" using fst by simp
      then show False using z nn0 by simp
    qed
    then show ?thesis using False by simp
  qed
qed

lemma set_py_slice: "set (py_slice xs a b) \<subseteq> set xs"
  unfolding py_slice_def Let_def
  by (meson set_take_subset set_drop_subset subset_trans)

lemma length_py_slice_inside:
  assumes "0 \<le> a" "a \<le> b" "b \<le> int (length xs)"
  shows "length (py_slice xs a b) = nat (b - a)"
  using assms by (auto simp: py_slice_def Let_def min_def)

lemma reshape_dim_Inr: "reshape_dim d n = Inr m \<Longrightarrow> m = n"
  by (auto simp: reshape_dim_def split: if_splits)

lemma py_slice_nonneg:
  assumes "\<forall>x\<in>set xs. (0::real) \<le> x"
  shows "\<forall>x\<in>set (py_slice xs a b). 0 \<le> x"
proof
  fix x assume "x \<in> set (py_slice xs a b)"
  then have "x \<in> set xs" using set_py_slice [of xs a b] by (rule rev_subsetD)
  then show "0 \<le> x" using assms by simp
qed

lemma find_best_entity_window_Inr_argmax:
  assumes r: "find_best_entity_window start_score end_score cs ce = Inr (sc, s, e)"
  shows "\<exists>k. argmax (concat (tril (triu (matmul_col_row (py_slice start_score cs ce)
                 (py_slice end_score cs ce)) 0) 16)) = Inr k \<and>
             s = k div length (py_slice end_score cs ce) \<and>
             e = k mod length (py_slice end_score cs ce)"
proof (cases "reshape_dim (ce - cs) (length (py_slice start_score cs ce))")
  case Inl
  then show ?thesis using r by (simp add: find_best_entity_window_def)
next
  case d1: (Inr nrows)
  show ?thesis
  proof (cases "reshape_dim (ce - cs) (length (py_slice end_score cs ce))")
    case Inl
    then show ?thesis using r d1 by (simp add: find_best_entity_window_def)
  next
    case d2: (Inr ncols)
    have nc: "ncols = length (py_slice end_score cs ce)" using reshape_dim_Inr [OF d2] .
    show ?thesis
    proof (cases "argmax (concat (tril (triu (matmul_col_row (py_slice start_score cs ce)
                 (py_slice end_score cs ce)) 0) 16))")
      case Inl
      then show ?thesis using r d1 d2 by (simp add: find_best_entity_window_def)
    next
      case (Inr k)
      then show ?thesis using r d1 d2 nc by (simp add: find_best_entity_window_def Let_def)
    qed
  qed
qed

lemma find_best_entity_window_Inr:
  assumes r: "find_best_entity_window start_score end_score cs ce = Inr (sc, s, e)"
    and nn: "\<forall>x\<in>set start_score. 0 \<le> x" "\<forall>x\<in>set end_score. 0 \<le> x"
  shows "s \<le> e \<and> e \<le> s + 16"
proof -
  obtain k where am: "argmax (concat (tril (triu (matmul_col_row (py_slice start_score cs ce)
                 (py_slice end_score cs ce)) 0) 16)) = Inr k"
    and se: "s = k div length (py_slice end_score cs ce)"
            "e = k mod length (py_slice end_score cs ce)"
    using find_best_entity_window_Inr_argmax [OF r] by blast
  show ?thesis
    using band_argmax [OF py_slice_nonneg [OF nn(1)] py_slice_nonneg [OF nn(2)] am] se
    by simp
qed

lemma find_best_entity_window_returns:
  assumes "0 \<le> cs" "cs < ce" "ce \<le> int (length start_score)" "ce \<le> int (length end_score)"
  shows "\<exists>sc s e. find_best_entity_window start_score end_score cs ce = Inr (sc, s, e)"
proof -
  let ?col = "py_slice start_score cs ce"
  let ?row = "py_slice end_score cs ce"
  let ?M = "tril (triu (matmul_col_row ?col ?row) 0) 16"
  have lc: "length ?col = nat (ce - cs)" using assms by (intro length_py_slice_inside) auto
  have lr: "length ?row = nat (ce - cs)" using assms by (intro length_py_slice_inside) auto
  have d1: "reshape_dim (ce - cs) (length ?col) = Inr (length ?col)"
    using assms lc by (simp add: reshape_dim_def)
  have d2: "reshape_dim (ce - cs) (length ?row) = Inr (length ?row)"
    using assms lr by (simp add: reshape_dim_def)
  have rect: "\<forall>r\<in>set ?M. length r = length ?row" using length_band_row by blast
  have "length (concat ?M) = length ?col * length ?row"
    using length_concat_rect [OF rect] by (simp add: length_band)
  then have "0 < length (concat ?M)" using lc lr assms by simp
  then have "concat ?M \<noteq> []" using length_greater_0_conv by blast
  then obtain k where "argmax (concat ?M) = Inr k" using argmax_nonempty by blast
  then show ?thesis using d1 d2 by (simp add: find_best_entity_window_def Let_def)
qed

section \<open>Entity extraction notebook: the span of the best window\<close>

text \<open>
  Claim C7, as the code supports it. For score vectors without negative entries (the
  notebook passes softmax outputs) and all indices, negative ones included, every pair \<open>(max_s, max_e)\<close> that
  \<open>find_best_entity_window\<close> returns satisfies \<open>0 \<le> max_s \<le> max_e \<le> max_s + 16\<close>: the
  selected span does not end before it starts and is at most 16 token positions long.
  The function returns whenever \<open>0 \<le> context_start_idx < context_end_idx\<close> and both
  vectors have at least \<open>context_end_idx\<close> entries.
\<close>

theorem find_best_entity_window_span:
  assumes "\<forall>x\<in>set start_score. 0 \<le> x" "\<forall>x\<in>set end_score. 0 \<le> x"
  shows "(\<forall>sc max_s max_e.
            find_best_entity_window start_score end_score cs ce = Inr (sc, max_s, max_e) \<longrightarrow>
            0 \<le> max_s \<and> max_s \<le> max_e \<and> max_e \<le> max_s + 16) \<and>
         (0 \<le> cs \<and> cs < ce \<and> ce \<le> int (length start_score) \<and>
          ce \<le> int (length end_score) \<longrightarrow>
            (\<exists>sc max_s max_e.
               find_best_entity_window start_score end_score cs ce = Inr (sc, max_s, max_e)))"
proof (intro conjI allI impI)
  fix sc max_s max_e
  assume r: "find_best_entity_window start_score end_score cs ce = Inr (sc, max_s, max_e)"
  show "0 \<le> max_s" by simp
  show "max_s \<le> max_e" using find_best_entity_window_Inr [OF r assms] by simp
  show "max_e \<le> max_s + 16" using find_best_entity_window_Inr [OF r assms] by simp
next
  assume "0 \<le> cs \<and> cs < ce \<and> ce \<le> int (length start_score) \<and>
          ce \<le> int (length end_score)"
  then show "\<exists>sc max_s max_e.
               find_best_entity_window start_score end_score cs ce = Inr (sc, max_s, max_e)"
    using find_best_entity_window_returns [of cs ce start_score end_score] by blast
qed

theorem find_best_entity_window_span_witness:
  "(0::int) < 3 \<and> (3::int) \<le> int (length [1/10, 1/2, 2/5 :: real]) \<and>
   find_best_entity_window [1/10, 1/2, 2/5] [1/5, 3/10, 1/2] 0 3 = Inr (1/4, 1, 2) \<and>
   (1::nat) \<le> 2 \<and> (2::nat) \<le> 1 + 16"
proof -
  have v: "find_best_entity_window [1/10, 1/2, 2/5] [1/5, 3/10, 1/2] 0 3 = Inr (1/4, 1, 2)"
    by (simp add: find_best_entity_window_def py_slice_def reshape_dim_def matmul_col_row_def
        triu_def tril_def argmax_def)
  have h1: "\<forall>x\<in>set [1/10, 1/2, 2/5 :: real]. 0 \<le> x" by simp
  have h2: "\<forall>x\<in>set [1/5, 3/10, 1/2 :: real]. 0 \<le> x" by simp
  show ?thesis using find_best_entity_window_span [OF h1 h2, of 0 3] v by simp
qed

text \<open>
  Indices may be negative: the slices and the reshape then count from the end. With the
  end index \<open>-2\<close> the context of four scores is its first two entries.
\<close>

lemma find_best_entity_window_negative_end_index:
  "find_best_entity_window [1, 2, 3, 4] [4, 5, 6, 7] 0 (- 2) = Inr (10, 1, 1)"
proof -
  have "(3::nat) div 2 = 1" by simp
  then have d: "Suc (Suc (Suc 0)) div Suc (Suc 0) = Suc 0"
    by (simp only: numeral_3_eq_3 numeral_2_eq_2 One_nat_def)
  have "(3::nat) mod 2 = 1" by simp
  then have m: "Suc (Suc (Suc 0)) mod Suc (Suc 0) = Suc 0"
    by (simp only: numeral_3_eq_3 numeral_2_eq_2 One_nat_def)
  show ?thesis
    by (simp add: find_best_entity_window_def py_slice_def reshape_dim_def matmul_col_row_def
        triu_def tril_def argmax_def Let_def d m)
qed

text \<open>
  Claim C7 as stated, for all score vectors, fails: with negative scores every candidate
  inside the band is negative, the zero written below the diagonal is the largest entry,
  and the function returns a span that ends before it starts (start 1, end 0).
\<close>

theorem find_best_entity_window_negative_scores:
  "find_best_entity_window [1, 1] [- 1, - 1] 0 2 = Inr (0, 1, 0) \<and> \<not> ((1::nat) \<le> 0)"
  by (simp add: find_best_entity_window_def py_slice_def reshape_dim_def matmul_col_row_def
      triu_def tril_def argmax_def)

section \<open>Text prediction notebook: what top-k filtering keeps\<close>

lemma np_min_Inr:
  assumes "xs \<noteq> []"
  shows "np_min xs = Inr (Min (set xs))"
proof (cases xs)
  case Nil
  then show ?thesis using assms by simp
next
  case (Cons a list)
  then show ?thesis using Min.set_eq_fold [of a list] by (simp add: np_min_def)
qed

lemma np_min_empty: "np_min [] = Inl ValueError"
  by (simp add: np_min_def)

lemma clamp_top_k:
  assumes "0 < V"
  shows "1 \<le> nat (min (max top_k 1) (int V)) \<and> nat (min (max top_k 1) (int V)) \<le> V"
  using assms by auto

lemma length_filter_index:
  "length (filter P xs) = length (filter (\<lambda>j. P (xs ! j)) [0..<length xs])"
proof -
  have "filter P xs = filter P (map (nth xs) [0..<length xs])" by (simp add: map_nth)
  also have "length \<dots> = length (filter (P \<circ> nth xs) [0..<length xs])"
    by (simp only: filter_map length_map)
  finally show ?thesis by (simp add: comp_def)
qed

lemma length_filter_perm:
  assumes "mset xs = mset ys"
  shows "length (filter P xs) = length (filter P ys)"
proof -
  have "mset (filter P xs) = mset (filter P ys)" using assms by (simp only: mset_filter)
  then show ?thesis by (rule mset_eq_length)
qed

lemma length_filter_take:
  assumes "\<forall>x\<in>set (take k xs). P x" "k \<le> length xs"
  shows "k \<le> length (filter P xs)"
proof -
  have "filter P xs = filter P (take k xs) @ filter P (drop k xs)"
    by (metis append_take_drop_id filter_append)
  then have "length (filter P xs) = length (filter P (take k xs)) + length (filter P (drop k xs))"
    by simp
  moreover have "filter P (take k xs) = take k xs" using assms(1) by (simp add: filter_id_conv)
  ultimately show ?thesis using assms(2) by simp
qed

lemma top_k_retained:
  fixes r :: "'a::linorder list"
  assumes "1 \<le> k" "k \<le> length r"
  shows "k \<le> length (filter (\<lambda>x. Min (set (take k (rev (sort r)))) \<le> x) r)"
proof -
  let ?d = "rev (sort r)"
  let ?T = "Min (set (take k ?d))"
  have "\<forall>x\<in>set (take k ?d). ?T \<le> x" by simp
  moreover have "k \<le> length ?d" using assms by simp
  ultimately have "k \<le> length (filter (\<lambda>x. ?T \<le> x) ?d)" by (rule length_filter_take)
  moreover have "mset ?d = mset r" by simp
  ultimately show ?thesis using length_filter_perm [of ?d r] by simp
qed

lemma get_top_k_logits_Inr:
  assumes ne: "scores \<noteq> []" and rect: "\<forall>r\<in>set scores. length r = V" and V: "0 < V"
  shows "get_top_k_logits scores top_k =
         Inr (map (map (\<lambda>x. if x < Min (\<Union>r\<in>set scores. set (take (nat (min (max top_k 1) (int V))) (rev (sort r))))
                           then neg_inf else x)) scores)"
proof -
  let ?k = "nat (min (max top_k 1) (int V))"
  let ?tops = "map (\<lambda>r. take ?k (rev (sort r))) scores"
  obtain r0 rs where sc: "scores = r0 # rs" using ne by (cases scores) auto
  have l0: "length r0 = V" using rect sc by simp
  have k: "1 \<le> ?k" "?k \<le> V" using clamp_top_k [OF V, of top_k] by simp_all
  have "length (take ?k (rev (sort r0))) = ?k" using k l0 by simp
  then have "take ?k (rev (sort r0)) \<noteq> []" using k(1) by (metis length_0_conv not_one_le_zero)
  then have cne: "concat ?tops \<noteq> []" using sc by simp
  have "set (concat ?tops) = (\<Union>r\<in>set scores. set (take ?k (rev (sort r))))" by simp
  then have m: "np_min (concat ?tops) = Inr (Min (\<Union>r\<in>set scores. set (take ?k (rev (sort r)))))"
    using np_min_Inr [OF cne] by simp
  have v: "(case scores of [] \<Rightarrow> 0 | r # _ \<Rightarrow> int (length r)) = int V" using sc l0 by simp
  show ?thesis unfolding get_top_k_logits_def Let_def v m by simp
qed

text \<open>
  Claim C8, as the code supports it. For a two-dimensional logits array with at least one
  row and at least one column (\<open>V\<close> columns) and every integer \<open>top_k\<close>,
  \<open>get_top_k_logits\<close> clamps \<open>top_k\<close> to \<open>k\<close> in the range from 1 to \<open>V\<close> and returns
  an array of the same shape in which exactly the entries strictly below the threshold
  \<open>T\<close> are replaced by minus infinity, where \<open>T\<close> is the minimum over all rows of the
  \<open>k\<close> largest values of each row; every other entry, ties with \<open>T\<close> included, is
  unchanged. When the array has a single row, at least \<open>k\<close> of its entries are at or above
  \<open>T\<close> and unchanged.
\<close>

theorem get_top_k_logits_filters:
  fixes scores :: "logit list list" and top_k :: int and V :: nat
  defines "k \<equiv> nat (min (max top_k 1) (int V))"
  defines "T \<equiv> Min (\<Union>r\<in>set scores. set (take k (rev (sort r))))"
  assumes ne: "scores \<noteq> []" and rect: "\<forall>r\<in>set scores. length r = V" and V: "0 < V"
  shows "1 \<le> k \<and> k \<le> V \<and>
     (\<exists>res. get_top_k_logits scores top_k = Inr res \<and> length res = length scores \<and>
        (\<forall>i<length scores. length (res ! i) = V \<and>
            (\<forall>j<V. res ! i ! j = (if scores ! i ! j < T then neg_inf else scores ! i ! j))) \<and>
        (\<forall>r. scores = [r] \<longrightarrow>
            k \<le> length (filter (\<lambda>j. T \<le> r ! j \<and> res ! 0 ! j = r ! j) [0..<V])))"
proof -
  let ?g = "\<lambda>x. if x < T then neg_inf else x"
  let ?res = "map (map ?g) scores"
  have k: "1 \<le> k" "k \<le> V" using clamp_top_k [OF V, of top_k] by (simp_all add: k_def)
  have r: "get_top_k_logits scores top_k = Inr ?res"
    using get_top_k_logits_Inr [OF ne rect V, of top_k] by (simp add: T_def k_def)
  have shape: "\<forall>i<length scores. length (?res ! i) = V \<and>
            (\<forall>j<V. ?res ! i ! j = (if scores ! i ! j < T then neg_inf else scores ! i ! j))"
    using rect by simp
  have single: "k \<le> length (filter (\<lambda>j. T \<le> r ! j \<and> ?res ! 0 ! j = r ! j) [0..<V])"
    if s: "scores = [r]" for r
  proof -
    have lr: "length r = V" using rect s by simp
    have Tr: "T = Min (set (take k (rev (sort r))))" using s by (simp add: T_def)
    have "filter (\<lambda>j. T \<le> r ! j \<and> ?res ! 0 ! j = r ! j) [0..<V] =
          filter (\<lambda>j. T \<le> r ! j) [0..<V]"
      using s lr by (intro filter_cong) (auto simp: not_less)
    then have "length (filter (\<lambda>j. T \<le> r ! j \<and> ?res ! 0 ! j = r ! j) [0..<V]) =
          length (filter (\<lambda>x. T \<le> x) r)"
      using length_filter_index [of "\<lambda>x. T \<le> x" r] lr by simp
    then show ?thesis using top_k_retained [of k r] k lr Tr by simp
  qed
  show ?thesis using k r shape single by (intro conjI exI [of _ ?res]) simp_all
qed

theorem get_top_k_logits_filters_witness:
  "[[Some 1, Some 5, Some 3], [Some 0, Some 2, Some (7::real)]] \<noteq> [] \<and>
   map length [[Some 1, Some 5, Some 3], [Some 0, Some 2, Some (7::real)]] = [3, 3] \<and>
   get_top_k_logits [[Some 1, Some 5, Some 3], [Some 0, Some 2, Some 7]] 1 =
     Inr [[neg_inf, Some 5, neg_inf], [neg_inf, neg_inf, Some 7]]"
proof -
  have h1: "[[Some 1, Some 5, Some 3], [Some 0, Some 2, Some (7::real)]] \<noteq> []" by simp
  have h2: "\<forall>r\<in>set [[Some 1, Some 5, Some 3], [Some 0, Some 2, Some (7::real)]]. length r = 3"
    by simp
  have h3: "(0::nat) < 3" by simp
  note t = get_top_k_logits_filters [OF h1 h2 h3, of 1]
  have v: "get_top_k_logits [[Some 1, Some 5, Some 3], [Some 0, Some 2, Some 7]] 1 =
     Inr [[neg_inf, Some 5, neg_inf], [neg_inf, neg_inf, Some 7]]"
    by (simp add: get_top_k_logits_def np_min_def)
  show ?thesis using t h1 v by simp
qed

text \<open>A single row with a tie at the threshold: both entries equal to 5 are kept.\<close>

lemma get_top_k_logits_ties_kept:
  "get_top_k_logits [[Some 1, Some 5, Some 3, neg_inf, Some 5]] 2 =
     Inr [[neg_inf, Some 5, neg_inf, neg_inf, Some 5]]"
  by (simp add: get_top_k_logits_def np_min_def)

text \<open>
  Claim C8 as stated, for every two-dimensional array, fails on an array without columns:
  \<open>top_k\<close> is clamped to 0, outside the range that starts at 1, the array of the top
  values is empty, and \<open>np.min\<close> raises instead of returning an array.
\<close>

theorem get_top_k_logits_empty_vocabulary:
  "get_top_k_logits [[]] 5 = Inl ValueError"
  by (simp add: get_top_k_logits_def np_min_def)

section \<open>Entity extraction notebook: when inference runs\<close>

lemma get_best_entity_events:
  "\<exists>ni. fst (get_best_entity E entity ctx) = [Inference ni]"
  by (auto simp: get_best_entity_def Let_def split: prod.splits sum.splits)

lemma extract_loop_events:
  "\<exists>es. fst (extract_loop E ctx fs acc evs) = evs @ es \<and>
        (\<forall>e\<in>set es. \<exists>ni. e = Inference ni) \<and> (fs \<noteq> [] \<longrightarrow> es \<noteq> [])"
proof (induction fs arbitrary: acc evs)
  case Nil
  then show ?case by simp
next
  case (Cons f fs)
  obtain ni r where g: "get_best_entity E (py f @ py ''?'') ctx = ([Inference ni], r)"
    using get_best_entity_events [of E "py f @ py ''?''" ctx]
    by (cases "get_best_entity E (py f @ py ''?'') ctx") auto
  show ?case
  proof (cases r)
    case (Inl e)
    then show ?thesis using g by simp
  next
    case (Inr a)
    obtain entity score where a: "a = (entity, score)" by (cases a)
    let ?ex = "if confidence_threshold \<le> score then acc @ [(entity, f, score)] else acc"
    obtain es where es: "fst (extract_loop E ctx fs ?ex (evs @ [Inference ni])) =
          (evs @ [Inference ni]) @ es" "\<forall>e\<in>set es. \<exists>ni. e = Inference ni"
      using Cons.IH [of ?ex "evs @ [Inference ni]"] by blast
    have "fst (extract_loop E ctx (f # fs) acc evs) = evs @ (Inference ni # es)"
      using g Inr a es(1) by simp
    moreover have "\<forall>e\<in>set (Inference ni # es). \<exists>ni. e = Inference ni" using es(2) by simp
    ultimately show ?thesis by blast
  qed
qed

lemma template_nonempty: "template \<noteq> []"
  by (simp add: template_def)

lemma run_in_range:
  assumes "0 < length ctx" "length ctx \<le> 380"
  shows "\<exists>es. es \<noteq> [] \<and> (\<forall>e\<in>set es. \<exists>ni. e = Inference ni) \<and>
           ((\<exists>err. run_analyze_entities E ctx = (PrintContext ctx # es, Some err)) \<or>
            (\<exists>x. run_analyze_entities E ctx = (PrintContext ctx # es @ [PrintJsonOutput x], None)))"
proof -
  obtain es where es: "fst (extract_loop E ctx template [] [PrintContext ctx]) = [PrintContext ctx] @ es"
      "\<forall>e\<in>set es. \<exists>ni. e = Inference ni" "es \<noteq> []"
    using extract_loop_events [of E ctx template "[]" "[PrintContext ctx]"] template_nonempty
    by blast
  obtain evs r where l: "extract_loop E ctx template [] [PrintContext ctx] = (evs, r)"
    by (cases "extract_loop E ctx template [] [PrintContext ctx]")
  have evs: "evs = PrintContext ctx # es" using es(1) l by simp
  show ?thesis
  proof (cases r)
    case (Inl e)
    then have "run_analyze_entities E ctx = (PrintContext ctx # es, Some e)"
      using assms l evs by (simp add: run_analyze_entities_def)
    then show ?thesis using es(2,3) by blast
  next
    case (Inr x)
    then have "run_analyze_entities E ctx = (PrintContext ctx # es @ [PrintJsonOutput x], None)"
      using assms l evs by (simp add: run_analyze_entities_def)
    then show ?thesis using es(2,3) by blast
  qed
qed

text \<open>
  Claim C6. For every context, the compiled model is called during
  \<open>run_analyze_entities\<close> exactly when \<open>0 < len(context) \<le> 380\<close>, where the length
  counts characters. An empty context and a context of more than 380 characters print the
  context and one error message and return without calling the model. The JSON result
  is printed only when neither error branch was taken (and no exception escaped), and
  then it is the last line printed.
\<close>

theorem run_analyze_entities_guard:
  "((\<exists>ni. Inference ni \<in> set (fst (run_analyze_entities E ctx))) \<longleftrightarrow>
      0 < length ctx \<and> length ctx \<le> 380) \<and>
   (length ctx = 0 \<longrightarrow>
      run_analyze_entities E ctx = ([PrintContext ctx, PrintErrorEmpty], None)) \<and>
   (380 < length ctx \<longrightarrow>
      run_analyze_entities E ctx = ([PrintContext ctx, PrintErrorTooLong], None)) \<and>
   ((\<exists>x. PrintJsonOutput x \<in> set (fst (run_analyze_entities E ctx))) \<longrightarrow>
      0 < length ctx \<and> length ctx \<le> 380 \<and> snd (run_analyze_entities E ctx) = None) \<and>
   (0 < length ctx \<and> length ctx \<le> 380 \<and> snd (run_analyze_entities E ctx) = None \<longrightarrow>
      (\<exists>x. last (fst (run_analyze_entities E ctx)) = PrintJsonOutput x))"
proof (cases "0 < length ctx \<and> length ctx \<le> 380")
  case True
  then obtain es where es: "es \<noteq> []" "\<forall>e\<in>set es. \<exists>ni. e = Inference ni"
    and r: "(\<exists>err. run_analyze_entities E ctx = (PrintContext ctx # es, Some err)) \<or>
            (\<exists>x. run_analyze_entities E ctx = (PrintContext ctx # es @ [PrintJsonOutput x], None))"
    using run_in_range [of ctx E] by blast
  obtain ni where ni: "Inference ni \<in> set es"
    using es by (cases es) auto
  have inf: "\<exists>ni. Inference ni \<in> set (fst (run_analyze_entities E ctx))"
    using r ni by auto
  have nj: "\<And>x. PrintJsonOutput x \<notin> set es" using es(2) by auto
  have js: "(\<exists>x. PrintJsonOutput x \<in> set (fst (run_analyze_entities E ctx))) \<longrightarrow>
      snd (run_analyze_entities E ctx) = None"
    using r nj by auto
  have lst: "snd (run_analyze_entities E ctx) = None \<longrightarrow>
      (\<exists>x. last (fst (run_analyze_entities E ctx)) = PrintJsonOutput x)"
    using r by auto
  show ?thesis using True inf js lst by simp
next
  case False
  then consider "length ctx = 0" | "380 < length ctx" by linarith
  then show ?thesis
  proof cases
    case 1
    then show ?thesis by (simp add: run_analyze_entities_def)
  next
    case 2
    then show ?thesis by (auto simp: run_analyze_entities_def)
  qed
qed

lemma postprocess_example:
  "postprocess [0, 0, 0, 0, 0] [0, 0, 0, 0, 0] [7] [(0, n)] 5 = Inr (1 / 25, 0, n)"
  by (simp add: postprocess_def get_score_def find_best_entity_window_def py_slice_def
      reshape_dim_def matmul_col_row_def triu_def tril_def argmax_def py_index_def)

lemma get_best_entity_example: "get_best_entity example_env e (py ''Intel'') = ([Inference example_input], Inr (py ''Intel'', 1 / 25))"
  by (simp add: get_best_entity_def example_env_def py_def prepare_input_def postprocess_example
      py_slice_def example_input_def)

lemma extract_loop_example: "extract_loop example_env (py ''Intel'') (f # fs) acc evs =
    extract_loop example_env (py ''Intel'') fs acc (evs @ [Inference example_input])"
  by (simp add: get_best_entity_example confidence_threshold_def)

lemma run_analyze_entities_example: "run_analyze_entities example_env (py ''Intel'') =
   ([PrintContext (py ''Intel''), Inference example_input, Inference example_input, Inference example_input, Inference example_input,
      Inference example_input, Inference example_input, Inference example_input, Inference example_input, PrintJsonOutput []], None)"
proof -
  have l: "length (py ''Intel'') = 5" by (simp add: py_def)
  have "extract_loop example_env (py ''Intel'') template [] [PrintContext (py ''Intel'')] =
     ([PrintContext (py ''Intel''), Inference example_input, Inference example_input, Inference example_input, Inference example_input,
      Inference example_input, Inference example_input, Inference example_input, Inference example_input], Inr [])"
    unfolding template_def by (simp only: extract_loop_example extract_loop.simps(1) append.simps)
  then show ?thesis
    by (simp add: run_analyze_entities_def l)
qed

theorem run_analyze_entities_guard_witness:
  "length (py ''Intel'') = 5 \<and>
   run_analyze_entities example_env (py ''Intel'') =
     ([PrintContext (py ''Intel''), Inference example_input, Inference example_input,
       Inference example_input, Inference example_input, Inference example_input,
       Inference example_input, Inference example_input, Inference example_input,
       PrintJsonOutput []], None) \<and>
   run_analyze_entities example_env [] = ([PrintContext [], PrintErrorEmpty], None) \<and>
   run_analyze_entities example_env (replicate 381 120) =
     ([PrintContext (replicate 381 120), PrintErrorTooLong], None)"
proof -
  have l: "length (py ''Intel'') = 5" by (simp add: py_def)
  show ?thesis
    using run_analyze_entities_guard [of example_env "py ''Intel''"]
      run_analyze_entities_guard [of example_env "[]"]
      run_analyze_entities_guard [of example_env "replicate 381 120"]
      run_analyze_entities_example l
    by simp
qed

section \<open>The notebooks: pipeline, delegation, benchmarking and tools\<close>

text \<open>
  \<open>occurs_in_order\<close> takes the first call that fits each step. That decides whether the
  calls have a subsequence with one call for each step, in order.
\<close>

lemma occurs_in_order_subseq:
  "occurs_in_order ps cs \<Longrightarrow> \<exists>ds. subseq ds cs \<and> list_all2 (\<lambda>p d. p d) ps ds"
proof (induction ps cs rule: occurs_in_order.induct)
  case (1 cs)
  then show ?case by simp
next
  case (2 p ps)
  then show ?case by simp
next
  case (3 p ps c cs)
  show ?case
  proof (cases "p c")
    case True
    then obtain ds where "subseq ds cs" "list_all2 (\<lambda>p d. p d) ps ds"
      using 3 by auto
    then have "subseq (c # ds) (c # cs) \<and> list_all2 (\<lambda>p d. p d) (p # ps) (c # ds)"
      using True by simp
    then show ?thesis by blast
  next
    case False
    then obtain ds where "subseq ds cs" "list_all2 (\<lambda>p d. p d) (p # ps) ds"
      using 3 by auto
    then have "subseq ds (c # cs) \<and> list_all2 (\<lambda>p d. p d) (p # ps) ds"
      by (simp add: list_emb_Cons)
    then show ?thesis by blast
  qed
qed

lemma subseq_occurs_in_order:
  "subseq ds cs \<Longrightarrow> list_all2 (\<lambda>p d. p d) ps ds \<Longrightarrow> occurs_in_order ps cs"
proof (induction cs arbitrary: ps ds)
  case Nil
  have "ds = []" using Nil.prems(1) by (rule list_emb_Nil2)
  then have "ps = []" using Nil.prems(2) by simp
  then show ?case by simp
next
  case (Cons c cs)
  show ?case
  proof (cases ps)
    case Nil
    then show ?thesis by simp
  next
    case ps: (Cons p ps')
    then obtain d ds' where ds: "ds = d # ds'" and pd: "p d" and rest: "list_all2 (\<lambda>p d. p d) ps' ds'"
      using Cons.prems(2) by (auto simp: list_all2_Cons1)
    show ?thesis
    proof (cases "p c")
      case True
      have "subseq ds' cs"
        using Cons.prems(1) ds by (auto simp: subseq_Cons2_iff dest: subseq_Cons' split: if_splits)
      then have "occurs_in_order ps' cs" using Cons.IH rest by blast
      then show ?thesis using True ps by simp
    next
      case False
      then have "d \<noteq> c" using pd by auto
      then have "subseq (d # ds') cs" using Cons.prems(1) ds by (simp add: subseq_Cons2_iff)
      then have "occurs_in_order (p # ps') cs" using Cons.IH Cons.prems(2) ds ps by blast
      then show ?thesis using False ps by simp
    qed
  qed
qed

lemma occurs_in_order_iff:
  "occurs_in_order ps cs \<longleftrightarrow> (\<exists>ds. subseq ds cs \<and> list_all2 (\<lambda>p d. p d) ps ds)"
  using occurs_in_order_subseq subseq_occurs_in_order by blast

text \<open>
  Claim C1, as the code supports it. No notebook has every step that is not optional and
  keeps the stated order. Six notebooks (segmentation, BERT, speech recognition, 112,
  YOLOv7, 302) download a model and a dataset, export to ONNX, convert to IR, validate
  accuracy and run \<open>benchmark_app\<close>, and each of them goes back to an earlier step
  somewhere; six notebooks (entity extraction, PaddleGAN, 114, 212, 214, GPT-2) never go
  back, and each of them omits a step that is not optional; 305 omits a step and goes
  back. Four notebooks (segmentation, BERT, speech recognition, YOLOv7) contain, with
  other calls in between, a model download, an export to ONNX, a conversion to IR, a
  quantization, an accuracy validation and a run of \<open>benchmark_app\<close> in this order; these
  four download their dataset after they have converted the model to IR. Every notebook
  starts its calls with a download, converts to IR only after its first export to ONNX
  when it exports to ONNX at all, and exports, converts and quantizes nothing any more
  once it has run \<open>benchmark_app\<close>.
\<close>

theorem notebooks_pipeline_order:
  "filter performs_pipeline notebooks = [] \<and>
   map name (filter has_all_steps notebooks) =
     [''part_001'', ''105-language-quantize-bert'', ''105-language-quantize-bert:761'',
      ''112-pytorch-post-training-quantization-nncf'', ''226-yolov7-optimization'',
      ''302-pytorch-quantization-aware-training''] \<and>
   map name (filter in_stated_order notebooks) =
     [''part_000'', ''part_002'', ''114-quantization-simplified-mode'',
      ''212-onnx-style-transfer'', ''214-vision-paddle-classification'',
      ''223-gpt2-text-prediction''] \<and>
   map name (filter (\<lambda>nb. \<not> has_all_steps nb \<and> \<not> in_stated_order nb) notebooks) =
     [''305-tensorflow-quantization-aware-training''] \<and>
   map name (filter contains_model_pipeline notebooks) =
     [''part_001'', ''105-language-quantize-bert'', ''105-language-quantize-bert:761'',
      ''226-yolov7-optimization''] \<and>
   map name (filter dataset_after_conversion notebooks) =
     [''part_001'', ''105-language-quantize-bert'', ''105-language-quantize-bert:761'',
      ''226-yolov7-optimization''] \<and>
   list_all starts_with_download notebooks \<and>
   list_all export_before_conversion notebooks \<and>
   list_all benchmark_app_after_preparation notebooks"
  by code_simp

theorem notebooks_pipeline_order_witness:
  "has_all_steps nb_yolov7 \<and> \<not> in_stated_order nb_yolov7 \<and>
   contains_model_pipeline nb_yolov7 \<and> dataset_after_conversion nb_yolov7 \<and>
   starts_with_download nb_yolov7 \<and> export_before_conversion nb_yolov7 \<and>
   benchmark_app_after_preparation nb_yolov7 \<and>
   in_stated_order nb_pot_simplified \<and> \<not> has_all_steps nb_pot_simplified"
  using notebooks_pipeline_order by code_simp

text \<open>
  Claim C1 as stated, for every notebook, fails on the entity extraction notebook: it
  downloads a model that is already in IR format and runs it; it has no download of a
  dataset, no export to ONNX, no conversion, no accuracy validation and no run of
  \<open>benchmark_app\<close>.
\<close>

theorem entity_extraction_omits_pipeline_steps:
  "\<not> performs_pipeline nb_entity_extraction \<and> \<not> has_all_steps nb_entity_extraction"
  by code_simp

text \<open>
  Claim C2. In every notebook, every call that quantizes a model (calibration and range
  estimation included), applies non-maximum suppression or converts a model to IR is a
  call of NNCF, POT, OpenVINO or the YOLOv7 utilities, and its callee is not among the
  functions and classes that the notebook defines.
\<close>

theorem quantization_nms_conversion_delegated:
  "list_all delegated notebooks"
  by code_simp

theorem quantization_nms_conversion_delegated_witness:
  "delegated nb_yolov7"
  using quantization_nms_conversion_delegated by code_simp

text \<open>
  Claim C3, as the code supports it. Every run of \<open>benchmark_app\<close> is a shell command.
  In three notebooks (114, YOLOv7, 305) the runs of \<open>benchmark_app\<close> are the only
  measurement. Six notebooks run \<open>benchmark_app\<close> and measure by another mechanism as
  well: the BERT, speech-recognition, 112, Paddle classification and 302 notebooks read a
  timer around their own inference or validation and print the elapsed time or a rate, the
  segmentation notebook prints throughput through \<open>show_live_inference\<close>. Three notebooks
  (entity extraction, PaddleGAN, GPT-2) never run \<open>benchmark_app\<close> and measure only with a
  timer of their own. The style-transfer notebook measures nothing. Timers around
  quantization and training are not counted as measurements.
\<close>

theorem benchmark_mechanisms:
  "list_all benchmark_app_by_shell notebooks \<and>
   map name (filter benchmarks_only_with_benchmark_app notebooks) =
     [''114-quantization-simplified-mode'', ''226-yolov7-optimization'',
      ''305-tensorflow-quantization-aware-training''] \<and>
   map name (filter (\<lambda>nb. uses_benchmark_app nb \<and> measures_otherwise nb) notebooks) =
     [''part_001'', ''105-language-quantize-bert'', ''105-language-quantize-bert:761'',
      ''112-pytorch-post-training-quantization-nncf'', ''214-vision-paddle-classification'',
      ''302-pytorch-quantization-aware-training''] \<and>
   map name (filter (\<lambda>nb. \<not> uses_benchmark_app nb \<and> measures_otherwise nb) notebooks) =
     [''part_000'', ''part_002'', ''223-gpt2-text-prediction''] \<and>
   map name (filter (\<lambda>nb. \<not> uses_benchmark_app nb \<and> \<not> measures_otherwise nb) notebooks) =
     [''212-onnx-style-transfer''] \<and>
   map name (filter (\<lambda>nb. list_ex own_timer (calls nb)) notebooks) =
     [''part_000'', ''part_002'', ''105-language-quantize-bert'',
      ''105-language-quantize-bert:761'', ''112-pytorch-post-training-quantization-nncf'',
      ''214-vision-paddle-classification'', ''223-gpt2-text-prediction'',
      ''302-pytorch-quantization-aware-training''] \<and>
   map name (filter (\<lambda>nb. list_ex helper_measurement (calls nb)) notebooks) =
     [''part_001''] \<and>
   list_all (\<lambda>nb. list_all (\<lambda>c. other_measurement c = (own_timer c \<or> helper_measurement c))
               (calls nb)) notebooks"
  by code_simp

theorem benchmark_mechanisms_witness:
  "benchmark_app_by_shell nb_bert \<and> uses_benchmark_app nb_bert \<and> measures_otherwise nb_bert \<and>
   list_ex own_timer (calls nb_bert) \<and> benchmarks_only_with_benchmark_app nb_yolov7 \<and>
   \<not> uses_benchmark_app nb_gpt2 \<and> measures_otherwise nb_gpt2"
  using benchmark_mechanisms by code_simp

text \<open>
  Claim C3 as stated fails on the PaddleGAN notebook: its performance measurement is a
  loop between two reads of \<open>time.perf_counter\<close>, and it does not run \<open>benchmark_app\<close>.
\<close>

theorem paddlegan_times_its_own_loop:
  "\<not> benchmarks_only_with_benchmark_app nb_paddlegan"
  by code_simp




end
